theory Spec2Isabelle
  imports Complex_Main
begin

section \<open>DatabaseInfo: the TTL cache entry of client/agentic_sql_client.py\<close>

text \<open>
  A naive Python \<open>datetime\<close> is kept as the three numbers that \<open>datetime.__sub__\<close> reads:
  the proleptic ordinal of the day (\<open>toordinal()\<close>, 1 for 0001-01-01), the second of the
  day (\<open>hour * 3600 + minute * 60 + second\<close>) and the microsecond.
  \<open>datetime.min\<close> is 0001-01-01T00:00:00.
\<close>

record datetime =
  ordinal :: int
  second_of_day :: int
  microsecond :: int

definition datetime_min :: datetime where
  "datetime_min = \<lparr>ordinal = 1, second_of_day = 0, microsecond = 0\<rparr>"

definition datetime_wf :: "datetime \<Rightarrow> bool" where
  "datetime_wf d = (1 \<le> ordinal d \<and> 0 \<le> second_of_day d \<and> second_of_day d < 86400
     \<and> 0 \<le> microsecond d \<and> microsecond d < 1000000)"

text \<open>
  A \<open>timedelta\<close> is normalised by its constructor: \<open>0 \<le> microseconds < 10^6\<close>,
  \<open>0 \<le> seconds < 86400\<close>, and the sign is carried by \<open>days\<close> alone. The attribute
  \<open>.seconds\<close> is that middle component, not the length of the interval in seconds
  (which is \<open>total_seconds()\<close>).
\<close>

record timedelta =
  days :: int
  seconds :: int
  microseconds :: int

definition timedelta_new :: "int \<Rightarrow> int \<Rightarrow> int \<Rightarrow> timedelta" where
  "timedelta_new d s us =
     (let total = (d * 86400 + s) * 1000000 + us;
          whole_seconds = total div 1000000
      in \<lparr>days = whole_seconds div 86400,
          seconds = whole_seconds mod 86400,
          microseconds = total mod 1000000\<rparr>)"

definition total_microseconds :: "timedelta \<Rightarrow> int" where
  "total_microseconds td = (days td * 86400 + seconds td) * 1000000 + microseconds td"

definition datetime_sub :: "datetime \<Rightarrow> datetime \<Rightarrow> timedelta" where
  "datetime_sub a b =
     timedelta_new (ordinal a - ordinal b) (second_of_day a - second_of_day b)
       (microsecond a - microsecond b)"

text \<open>Adding a whole number of seconds to a datetime (used to name the instants \<open>t0 + n s\<close>).\<close>

definition datetime_add_seconds :: "datetime \<Rightarrow> int \<Rightarrow> datetime" where
  "datetime_add_seconds a n =
     (let s = second_of_day a + n
      in \<lparr>ordinal = ordinal a + s div 86400, second_of_day = s mod 86400,
          microsecond = microsecond a\<rparr>)"

record DatabaseInfo =
  name :: string
  version :: string
  tables :: "string list"
  total_tables :: int
  server_info :: string
  connection_status :: string
  last_updated :: datetime
  cache_ttl :: int

text \<open>
  \<open>is_cache_valid\<close> reads the clock; the reading \<open>datetime.now()\<close> is the first argument.
  Source: \<open>return (datetime.now() - self.last_updated).seconds < self.cache_ttl\<close>.
\<close>

definition is_cache_valid :: "datetime \<Rightarrow> DatabaseInfo \<Rightarrow> bool" where
  "is_cache_valid now info = (seconds (datetime_sub now (last_updated info)) < cache_ttl info)"

definition invalidate_cache :: "DatabaseInfo \<Rightarrow> DatabaseInfo" where
  "invalidate_cache info = info\<lparr>last_updated := datetime_min\<rparr>"

text \<open>The entry that \<open>get_database_info\<close> stores, written at \<open>t\<close> with the given TTL.\<close>

definition fresh_entry :: "datetime \<Rightarrow> int \<Rightarrow> DatabaseInfo" where
  "fresh_entry t ttl =
     \<lparr>name = ''Azure SQL Database'', version = ''Unknown'', tables = [], total_tables = 0,
      server_info = ''Azure SQL Server'', connection_status = ''Connected'',
      last_updated = t, cache_ttl = ttl\<rparr>"

text \<open>2024-01-01T12:00:00 and 2024-01-02T00:01:00 (\<open>date(2024,1,1).toordinal() = 738886\<close>).\<close>

definition noon_2024_01_01 :: datetime where
  "noon_2024_01_01 = \<lparr>ordinal = 738886, second_of_day = 43200, microsecond = 0\<rparr>"

definition one_past_midnight_2024_01_02 :: datetime where
  "one_past_midnight_2024_01_02 = \<lparr>ordinal = 738887, second_of_day = 60, microsecond = 0\<rparr>"


section \<open>The circuit breaker of AgenticSQLClient\<close>

text \<open>
  The four \<open>_circuit_breaker_*\<close> attributes of the client. Readings of \<open>time.time()\<close>
  are arguments; clock values are taken as real numbers.
\<close>

record circuit_breaker =
  circuit_breaker_failures :: int
  circuit_breaker_last_failure :: real
  circuit_breaker_threshold :: int
  circuit_breaker_timeout :: int

text \<open>The values set by \<open>AgenticSQLClient.__init__\<close>.\<close>

definition circuit_breaker_init :: circuit_breaker where
  "circuit_breaker_init =
     \<lparr>circuit_breaker_failures = 0, circuit_breaker_last_failure = 0,
      circuit_breaker_threshold = 5, circuit_breaker_timeout = 60\<rparr>"

text \<open>\<open>_is_circuit_breaker_open\<close> returns its answer and the (possibly reset) state.\<close>

definition is_circuit_breaker_open :: "real \<Rightarrow> circuit_breaker \<Rightarrow> bool \<times> circuit_breaker" where
  "is_circuit_breaker_open now cb =
     (if circuit_breaker_failures cb \<ge> circuit_breaker_threshold cb then
        (let time_since_failure = now - circuit_breaker_last_failure cb
         in if time_since_failure < of_int (circuit_breaker_timeout cb) then (True, cb)
            else (False, cb\<lparr>circuit_breaker_failures := 0\<rparr>))
      else (False, cb))"

definition record_failure :: "real \<Rightarrow> circuit_breaker \<Rightarrow> circuit_breaker" where
  "record_failure now cb =
     cb\<lparr>circuit_breaker_failures := circuit_breaker_failures cb + 1,
        circuit_breaker_last_failure := now\<rparr>"

definition record_success :: "circuit_breaker \<Rightarrow> circuit_breaker" where
  "record_success cb =
     (if circuit_breaker_failures cb > 0
      then cb\<lparr>circuit_breaker_failures := max 0 (circuit_breaker_failures cb - 1)\<rparr>
      else cb)"

text \<open>
  The states a client's breaker can be in: the initial one, and whatever the three
  methods make of a state, at any clock reading.
\<close>

inductive breaker_reachable :: "circuit_breaker \<Rightarrow> bool" where
  reach_init: "breaker_reachable circuit_breaker_init"
| reach_failure: "breaker_reachable cb \<Longrightarrow> breaker_reachable (record_failure now cb)"
| reach_success: "breaker_reachable cb \<Longrightarrow> breaker_reachable (record_success cb)"
| reach_is_open: "breaker_reachable cb \<Longrightarrow> breaker_reachable (snd (is_circuit_breaker_open now cb))"


section \<open>ConnectionHealthMonitor (src/server/connection_monitor.py)\<close>

datatype ConnectionState = HEALTHY | DEGRADED | UNHEALTHY | CLOSED | UNKNOWN

record ConnectionHealth =
  state :: ConnectionState
  last_check :: real
  response_time_ms :: real
  error_count :: int
  last_error :: "string option"
  recovery_attempts :: int

text \<open>
  The monitor: its two settings, the dictionary of health records, the identities that
  have a monitoring task (the task objects themselves are not modelled), and the shutdown
  flag.
\<close>

record ConnectionHealthMonitor =
  check_interval :: int
  max_errors :: int
  connection_health :: "string \<rightharpoonup> ConnectionHealth"
  monitoring_tasks :: "string set"
  shutdown_event :: bool

datatype error =
    KeyError string
  | ConnectionError string
  | RetryError error
  | RuntimeError string
  | CallerError string
  | CancelledError
  | GeneratorExit

definition monitor_init :: "int \<Rightarrow> int \<Rightarrow> ConnectionHealthMonitor" where
  "monitor_init interval maxerr =
     \<lparr>check_interval = interval, max_errors = maxerr, connection_health = Map.empty,
      monitoring_tasks = {}, shutdown_event = False\<rparr>"

definition start_monitoring :: "ConnectionHealthMonitor \<Rightarrow> string \<Rightarrow> ConnectionHealthMonitor" where
  "start_monitoring m connection_id =
     (if connection_id \<in> monitoring_tasks m then m
      else m\<lparr>connection_health := (connection_health m)(connection_id \<mapsto>
                 \<lparr>state = UNKNOWN, last_check = 0, response_time_ms = 0, error_count = 0,
                  last_error = None, recovery_attempts = 0\<rparr>),
              monitoring_tasks := insert connection_id (monitoring_tasks m)\<rparr>)"

definition stop_monitoring :: "ConnectionHealthMonitor \<Rightarrow> string \<Rightarrow> ConnectionHealthMonitor" where
  "stop_monitoring m connection_id =
     (let m1 = (if connection_id \<in> monitoring_tasks m
                then m\<lparr>monitoring_tasks := monitoring_tasks m - {connection_id}\<rparr> else m)
      in if connection_id \<in> dom (connection_health m1)
         then m1\<lparr>connection_health := (connection_health m1)(connection_id := None)\<rparr>
         else m1)"

text \<open>
  The outcome of the probe inside \<open>_check_connection_health\<close> (create a connection, run
  \<open>SELECT 1\<close>, close it): it completes, or some step raises an \<open>Exception\<close> whose
  \<open>str()\<close> is the message.
\<close>

datatype probe_outcome = ProbePassed | ProbeFailed string

text \<open>
  \<open>_check_connection_health\<close>. \<open>start_time\<close>, \<open>t_response\<close> and \<open>t_check\<close> are the three
  readings of \<open>time.time()\<close>. The lookup \<open>self.connection_health[connection_id]\<close> is
  outside the \<open>try\<close> and raises \<open>KeyError\<close> for an identity without a record.
\<close>

definition check_connection_health ::
  "ConnectionHealthMonitor \<Rightarrow> string \<Rightarrow> probe_outcome \<Rightarrow> real \<Rightarrow> real \<Rightarrow> real
     \<Rightarrow> error + ConnectionHealthMonitor" where
  "check_connection_health m connection_id outcome start_time t_response t_check =
     (case connection_health m connection_id of
        None \<Rightarrow> Inl (KeyError connection_id)
      | Some health \<Rightarrow>
          (case outcome of
             ProbePassed \<Rightarrow>
               (let response_time = (t_response - start_time) * 1000;
                    health' = health\<lparr>state := HEALTHY, last_check := t_check,
                                response_time_ms := response_time,
                                error_count := max 0 (error_count health - 1),
                                last_error := None\<rparr>
                in Inr (m\<lparr>connection_health := (connection_health m)(connection_id \<mapsto> health')\<rparr>))
           | ProbeFailed error_msg \<Rightarrow>
               (let response_time = (t_response - start_time) * 1000;
                    count = error_count health + 1;
                    health' = health\<lparr>error_count := count, last_check := t_check,
                                response_time_ms := response_time,
                                last_error := Some error_msg,
                                state := (if count \<ge> max_errors m then UNHEALTHY
                                          else if count \<ge> max_errors m div 2 then DEGRADED
                                          else HEALTHY)\<rparr>
                in Inr (m\<lparr>connection_health := (connection_health m)(connection_id \<mapsto> health')\<rparr>))))"

definition get_connection_health :: "ConnectionHealthMonitor \<Rightarrow> string \<Rightarrow> ConnectionHealth option" where
  "get_connection_health m connection_id = connection_health m connection_id"

definition is_connection_healthy :: "ConnectionHealthMonitor \<Rightarrow> string \<Rightarrow> bool" where
  "is_connection_healthy m connection_id =
     (case get_connection_health m connection_id of
        None \<Rightarrow> False
      | Some health \<Rightarrow> state health \<in> set [HEALTHY, DEGRADED])"

text \<open>
  A monitor as \<open>ServerCore\<close> builds it (\<open>max_errors=5\<close>), watching "primary", whose record
  already counts one error.
\<close>

definition monitor_one_error :: ConnectionHealthMonitor where
  "monitor_one_error =
     \<lparr>check_interval = 60, max_errors = 5,
      connection_health = [''primary'' \<mapsto>
         \<lparr>state = HEALTHY, last_check = 10, response_time_ms = 5, error_count = 1,
          last_error = Some ''timeout'', recovery_attempts = 0\<rparr>],
      monitoring_tasks = {''primary''}, shutdown_event = False\<rparr>"


section \<open>ConnectionRecoveryManager (src/server/connection_monitor.py)\<close>
















section \<open>SqlConnectionFactory (src/connection/sql_connection_factory.py)\<close>

text \<open>
  A connection is known by its identity. Among the exceptions, \<open>CancelledError\<close> and
  \<open>GeneratorExit\<close> derive from \<open>BaseException\<close> only; a handler \<open>except Exception\<close> does
  not catch them.
\<close>

type_synonym conn = nat

fun is_Exception :: "error \<Rightarrow> bool" where
  "is_Exception CancelledError = False"
| "is_Exception GeneratorExit = False"
| "is_Exception e = True"

subsection \<open>create_connection and its retry decorator\<close>

text \<open>
  What the driver does in one run of the inner \<open>connect()\<close>: it returns a connection,
  \<open>pyodbc\<close> raises a \<open>pyodbc.Error\<close> (with its message), or something else is raised
  (the token acquisition raises \<open>ConnectionError\<close>, which is not a \<open>pyodbc.Error\<close>).
\<close>

datatype connect_outcome = Connected conn | PyodbcError string | OtherException error

text \<open>
  \<open>connect()\<close>: a \<open>pyodbc.Error\<close> becomes
  \<open>ConnectionError(f"Failed to connect to database: {str(e)}")\<close>; anything else passes.
  The \<open>try\<close> around \<open>run_in_executor\<close> in the body logs and re-raises, so one run of the
  undecorated body has the outcome of \<open>connect()\<close>.
\<close>

definition connect :: "connect_outcome \<Rightarrow> error + conn" where
  "connect outcome =
     (case outcome of
        Connected c \<Rightarrow> Inr c
      | PyodbcError msg \<Rightarrow> Inl (ConnectionError (''Failed to connect to database: '' @ msg))
      | OtherException e \<Rightarrow> Inl e)"

text \<open>
  The decorator is \<open>tenacity.retry\<close>, a library that is not part of the repository. Its
  documented behaviour is written out here for the arguments the source passes:
  \<open>stop_after_attempt(n)\<close> stops once the attempt number has reached \<open>n\<close>;
  \<open>wait_exponential(multiplier, min, max)\<close> waits
  \<open>max(max(0, min), min(multiplier * 2^(attempt_number - 1), max))\<close> seconds after a failed
  attempt; only an \<open>Exception\<close> is retried; and when the attempts are exhausted the
  decorator raises \<open>RetryError\<close> wrapping the last attempt, unless \<open>reraise=True\<close> was
  passed, in which case the last exception itself is raised.
\<close>

record retry_settings =
  stop_after_attempt :: nat
  wait_multiplier :: real
  wait_min :: real
  wait_max :: real
  reraise :: bool

definition wait_exponential :: "retry_settings \<Rightarrow> nat \<Rightarrow> real" where
  "wait_exponential cfg attempt_number =
     max (max 0 (wait_min cfg)) (min (wait_multiplier cfg * 2 ^ (attempt_number - 1)) (wait_max cfg))"

text \<open>
  The retry loop from attempt \<open>attempt_number\<close> on; \<open>run k\<close> is the outcome of the \<open>k\<close>-th
  run of the decorated body. The result is what the caller gets and the waits made.
\<close>

function retry_call ::
  "retry_settings \<Rightarrow> (nat \<Rightarrow> error + 'a) \<Rightarrow> nat \<Rightarrow> (error + 'a) \<times> real list" where
  "retry_call cfg run attempt_number =
     (case run attempt_number of
        Inr v \<Rightarrow> (Inr v, [])
      | Inl e \<Rightarrow>
          if \<not> is_Exception e then (Inl e, [])
          else if attempt_number \<ge> stop_after_attempt cfg then
            (if reraise cfg then (Inl e, []) else (Inl (RetryError e), []))
          else
            (case retry_call cfg run (attempt_number + 1) of
               (r, waits) \<Rightarrow> (r, wait_exponential cfg attempt_number # waits)))"
  by pat_completeness auto
termination
  by (relation "measure (\<lambda>(cfg, run, attempt_number). stop_after_attempt cfg - attempt_number)") auto

declare retry_call.simps [simp del]

text \<open>
  \<open>@retry(stop=stop_after_attempt(3), wait=wait_exponential(multiplier=1, min=2, max=10))\<close>:
  \<open>reraise\<close> is not passed, so it has its default, \<open>False\<close>.
\<close>

definition create_connection_retry :: retry_settings where
  "create_connection_retry =
     \<lparr>stop_after_attempt = 3, wait_multiplier = 1, wait_min = 2, wait_max = 10, reraise = False\<rparr>"

text \<open>\<open>create_connection\<close>; \<open>driver k\<close> is what the driver does in the \<open>k\<close>-th attempt.\<close>

definition create_connection :: "(nat \<Rightarrow> connect_outcome) \<Rightarrow> (error + conn) \<times> real list" where
  "create_connection driver = retry_call create_connection_retry (\<lambda>k. connect (driver k)) 1"

definition driver_always_refuses :: "nat \<Rightarrow> connect_outcome" where
  "driver_always_refuses k = PyodbcError ''login timeout expired''"

subsection \<open>get_pooled_connection\<close>

text \<open>
  The factory: \<open>_connection_pool\<close> is \<open>None\<close> or an \<open>asyncio.Queue\<close>, kept as the list of
  its items, oldest first, with \<open>maxsize = _pool_size\<close>. Two more fields record the
  effects on connections: \<open>closed\<close> holds the connections on which \<open>close()\<close> has been
  called, and \<open>acquired\<close> lists the connections that calls of \<open>get_pooled_connection\<close>
  have taken from the pool or received from \<open>create_connection\<close>.
\<close>

record SqlConnectionFactory =
  connection_pool :: "conn list option"
  pool_size :: int
  pool_initialized :: bool
  closed :: "conn set"
  acquired :: "conn list"

text \<open>
  The test \<open>not self._connection_pool or self._pool_size == 0\<close> selects the unpooled
  branch. An \<open>asyncio.Queue\<close> defines neither \<open>__bool__\<close> nor \<open>__len__\<close>, so a queue is
  truthy also when it is empty.
\<close>

definition pooling_enabled :: "SqlConnectionFactory \<Rightarrow> bool" where
  "pooling_enabled f = (\<not> (connection_pool f = None \<or> pool_size f = 0))"

text \<open>The queue never holds more than its \<open>maxsize\<close>.\<close>

definition pool_wf :: "SqlConnectionFactory \<Rightarrow> bool" where
  "pool_wf f = (case connection_pool f of None \<Rightarrow> True | Some q \<Rightarrow> int (length q) \<le> pool_size f)"

definition in_pool :: "conn \<Rightarrow> SqlConnectionFactory \<Rightarrow> bool" where
  "in_pool c f = (case connection_pool f of None \<Rightarrow> False | Some q \<Rightarrow> c \<in> set q)"

text \<open>
  \<open>conn.close()\<close>. Both places that close a connection swallow what \<open>close()\<close> raises
  (\<open>close_connection\<close> logs it, the pooled branch has \<open>except: pass\<close>).
\<close>

definition close_conn :: "conn \<Rightarrow> SqlConnectionFactory \<Rightarrow> SqlConnectionFactory" where
  "close_conn c f = f\<lparr>closed := insert c (closed f)\<rparr>"

text \<open>
  The \<open>finally\<close> block of the pooled branch: \<open>await self._connection_pool.put(conn)\<close>, and
  \<open>conn.close()\<close> if that raises. The put enqueues when the queue has room and waits when
  it is full (\<open>None\<close>: the block does not finish); it raises only if there is no queue.
\<close>

definition return_to_pool :: "conn \<Rightarrow> SqlConnectionFactory \<Rightarrow> SqlConnectionFactory option" where
  "return_to_pool c f =
     (case connection_pool f of
        None \<Rightarrow> Some (close_conn c f)
      | Some q \<Rightarrow>
          if pool_size f \<le> 0 \<or> int (length q) < pool_size f
          then Some (f\<lparr>connection_pool := Some (q @ [c])\<rparr>)
          else None)"

text \<open>
  The generator behind \<open>@asynccontextmanager\<close> is run in steps. A step ends at one of the
  three \<open>yield conn\<close> (line 56 in the unpooled branch, line 67 after the probe, line 76 in
  the \<open>except\<close> handler), with an exception leaving the generator, with its normal end, or
  it waits for ever on the queue.
\<close>

datatype yield_point = UnpooledYield | ValidatedYield | ReplacementYield

datatype gen_step = Yield yield_point conn | Raise error | Stop | Blocked

definition finally_pooled ::
  "conn \<Rightarrow> gen_step \<Rightarrow> SqlConnectionFactory \<Rightarrow> gen_step \<times> SqlConnectionFactory" where
  "finally_pooled c pending f =
     (case return_to_pool c f of None \<Rightarrow> (Blocked, f) | Some f' \<Rightarrow> (pending, f'))"

text \<open>
  The handler \<open>except Exception\<close> of the pooled branch: close the connection, call
  \<open>create_connection\<close> (\<open>created\<close> is what that call gives), and yield the new connection.
  If the creation raises, the \<open>finally\<close> block runs with \<open>conn\<close> still the old connection.
\<close>

definition except_handler ::
  "conn \<Rightarrow> SqlConnectionFactory \<Rightarrow> error + conn \<Rightarrow> gen_step \<times> SqlConnectionFactory" where
  "except_handler c f created =
     (let f1 = close_conn c f
      in case created of
           Inl e \<Rightarrow> finally_pooled c (Raise e) f1
         | Inr c' \<Rightarrow> (Yield ReplacementYield c', f1\<lparr>acquired := acquired f1 @ [c']\<rparr>))"

text \<open>
  The first step (\<open>__aenter__\<close>). \<open>alive c\<close> says whether the probe
  \<open>cursor(); execute("SELECT 1"); close()\<close> on \<open>c\<close> passes. \<open>get()\<close> on an empty queue
  waits; the source gives it no timeout.
\<close>

definition gen_start ::
  "SqlConnectionFactory \<Rightarrow> (conn \<Rightarrow> bool) \<Rightarrow> error + conn \<Rightarrow> gen_step \<times> SqlConnectionFactory" where
  "gen_start f alive created =
     (if \<not> pooling_enabled f then
        (case created of
           Inl e \<Rightarrow> (Raise e, f)
         | Inr c \<Rightarrow> (Yield UnpooledYield c, f\<lparr>acquired := acquired f @ [c]\<rparr>))
      else
        (case connection_pool f of
           Some (c # q) \<Rightarrow>
             (let f1 = f\<lparr>connection_pool := Some q, acquired := acquired f @ [c]\<rparr>
              in if alive c then (Yield ValidatedYield c, f1)
                 else except_handler c f1 created)
         | _ \<Rightarrow> (Blocked, f)))"

text \<open>
  Resuming the generator at a yield: with \<open>anext\<close> when the caller's block ended normally,
  or by throwing an exception in (\<open>athrow\<close>; \<open>aclose\<close> throws \<open>GeneratorExit\<close>).
\<close>

datatype resume = Next | Throw error

definition gen_resume ::
  "yield_point \<Rightarrow> conn \<Rightarrow> resume \<Rightarrow> SqlConnectionFactory \<Rightarrow> error + conn
     \<Rightarrow> gen_step \<times> SqlConnectionFactory" where
  "gen_resume p c how f created =
     (case p of
        UnpooledYield \<Rightarrow>
          (case how of
             Next \<Rightarrow> (Stop, close_conn c f)
           | Throw e \<Rightarrow> (Raise e, close_conn c f))
      | ValidatedYield \<Rightarrow>
          (case how of
             Next \<Rightarrow> finally_pooled c Stop f
           | Throw e \<Rightarrow>
               if is_Exception e then except_handler c f created
               else finally_pooled c (Raise e) f)
      | ReplacementYield \<Rightarrow>
          (case how of
             Next \<Rightarrow> finally_pooled c Stop f
           | Throw e \<Rightarrow> finally_pooled c (Raise e) f))"

text \<open>
  \<open>__aexit__\<close> of \<open>contextlib\<close>'s async generator context manager. After a normal block
  the generator must stop; after an exception it must stop or raise. An exception that the
  generator swallows by stopping is suppressed. If the generator yields again, a
  \<open>RuntimeError\<close> is raised, and the releases of CPython differ in what they do to the
  generator first: 3.11.10 and 3.12 close it (\<open>aclose\<close> throws \<open>GeneratorExit\<close> in at the
  yield, so the pending \<open>finally\<close> block runs); earlier releases, 3.11.2 among them, raise
  at once and leave the generator suspended at its yield. \<open>closes_generator\<close> says which
  of the two the interpreter does.
\<close>

datatype body_outcome = BodyReturns | BodyRaises error

datatype scope_outcome = Completed | Propagates error | NeverReturns

definition aclose_then ::
  "bool \<Rightarrow> error \<Rightarrow> yield_point \<Rightarrow> conn \<Rightarrow> SqlConnectionFactory \<Rightarrow> error + conn
     \<Rightarrow> scope_outcome \<times> SqlConnectionFactory" where
  "aclose_then closes_generator err p c f created =
     (if closes_generator then
        (case gen_resume p c (Throw GeneratorExit) f created of
           (Blocked, f') \<Rightarrow> (NeverReturns, f')
         | (_, f') \<Rightarrow> (Propagates err, f'))
      else (Propagates err, f))"

definition aexit ::
  "bool \<Rightarrow> yield_point \<Rightarrow> conn \<Rightarrow> body_outcome \<Rightarrow> SqlConnectionFactory \<Rightarrow> error + conn
     \<Rightarrow> scope_outcome \<times> SqlConnectionFactory" where
  "aexit closes_generator p c body f created =
     (case body of
        BodyReturns \<Rightarrow>
          (case gen_resume p c Next f created of
             (Stop, f') \<Rightarrow> (Completed, f')
           | (Raise e, f') \<Rightarrow> (Propagates e, f')
           | (Yield p' c', f') \<Rightarrow>
               aclose_then closes_generator (RuntimeError ''generator didn't stop'') p' c' f' created
           | (Blocked, f') \<Rightarrow> (NeverReturns, f'))
      | BodyRaises v \<Rightarrow>
          (case gen_resume p c (Throw v) f created of
             (Stop, f') \<Rightarrow> (Completed, f')
           | (Raise e, f') \<Rightarrow> (Propagates e, f')
           | (Yield p' c', f') \<Rightarrow>
               aclose_then closes_generator
                 (RuntimeError ''generator didn't stop after athrow()'') p' c' f' created
           | (Blocked, f') \<Rightarrow> (NeverReturns, f')))"

text \<open>
  One whole \<open>async with factory.get_pooled_connection() as conn: ...\<close>; \<open>body c\<close> is how
  the caller's block ends when it is given \<open>c\<close>.
\<close>

definition scoped_use ::
  "bool \<Rightarrow> SqlConnectionFactory \<Rightarrow> (conn \<Rightarrow> bool) \<Rightarrow> error + conn \<Rightarrow> (conn \<Rightarrow> body_outcome)
     \<Rightarrow> scope_outcome \<times> SqlConnectionFactory" where
  "scoped_use closes_generator f alive created body =
     (case gen_start f alive created of
        (Yield p c, f1) \<Rightarrow> aexit closes_generator p c (body c) f1 created
      | (Raise e, f1) \<Rightarrow> (Propagates e, f1)
      | (Stop, f1) \<Rightarrow> (Propagates (RuntimeError ''generator didn't yield''), f1)
      | (Blocked, f1) \<Rightarrow> (NeverReturns, f1))"

text \<open>
  The path on which the generator yields a second time: pooling is enabled, the pooled
  connection passes the probe, the caller's block raises an \<open>Exception\<close> (which the
  handler \<open>except Exception\<close> around the first \<open>yield\<close> catches), and the replacement is
  created.
\<close>

definition yields_twice ::
  "SqlConnectionFactory \<Rightarrow> (conn \<Rightarrow> bool) \<Rightarrow> error + conn \<Rightarrow> (conn \<Rightarrow> body_outcome) \<Rightarrow> bool" where
  "yields_twice f alive created body =
     (pooling_enabled f \<and>
      (case connection_pool f of
         Some (c # q) \<Rightarrow>
           alive c \<and>
           (case body c of BodyReturns \<Rightarrow> False | BodyRaises e \<Rightarrow> is_Exception e) \<and>
           (case created of Inl e \<Rightarrow> False | Inr c' \<Rightarrow> True)
       | _ \<Rightarrow> False))"

text \<open>
  \<open>initialize_pool\<close>: a queue with \<open>maxsize = _pool_size\<close> is filled by \<open>_pool_size\<close> calls
  of \<open>create_connection\<close> (\<open>created_at i\<close> is what call \<open>i\<close> gives). A call that raises an
  \<open>Exception\<close> is logged and skipped; any other exception leaves the method, with the
  queue as filled so far and \<open>_pool_initialized\<close> still false.
\<close>

fun fill_pool :: "(error + conn) list \<Rightarrow> conn list \<Rightarrow> error option \<times> conn list" where
  "fill_pool [] q = (None, q)"
| "fill_pool (Inr c # rs) q = fill_pool rs (q @ [c])"
| "fill_pool (Inl e # rs) q = (if is_Exception e then fill_pool rs q else (Some e, q))"

definition initialize_pool ::
  "SqlConnectionFactory \<Rightarrow> (nat \<Rightarrow> error + conn) \<Rightarrow> error option \<times> SqlConnectionFactory" where
  "initialize_pool f created_at =
     (if pool_size f > 0 \<and> \<not> pool_initialized f then
        (case fill_pool (map created_at [0..<nat (pool_size f)]) [] of
           (None, q) \<Rightarrow> (None, f\<lparr>connection_pool := Some q, pool_initialized := True\<rparr>)
         | (Some e, q) \<Rightarrow> (Some e, f\<lparr>connection_pool := Some q\<rparr>))
      else (None, f))"

text \<open>Factories and callers for the examples.\<close>

definition unpooled_factory :: SqlConnectionFactory where
  "unpooled_factory =
     \<lparr>connection_pool = None, pool_size = 0, pool_initialized = False, closed = {},
      acquired = []\<rparr>"

definition pooled_factory :: SqlConnectionFactory where
  "pooled_factory =
     \<lparr>connection_pool = Some [3, 4], pool_size = 2, pool_initialized = True, closed = {},
      acquired = []\<rparr>"

definition none_alive :: "conn \<Rightarrow> bool" where
  "none_alive c = False"

definition all_alive :: "conn \<Rightarrow> bool" where
  "all_alive c = True"

definition body_returns :: "conn \<Rightarrow> body_outcome" where
  "body_returns c = BodyReturns"



section \<open>Cache entry: results\<close>

lemma timedelta_new_seconds_range:
  "0 \<le> seconds (timedelta_new d s us) \<and> seconds (timedelta_new d s us) < 86400"
  by (simp add: timedelta_new_def Let_def)

lemma timedelta_new_total:
  "total_microseconds (timedelta_new d s us) = (d * 86400 + s) * 1000000 + us"
  unfolding total_microseconds_def timedelta_new_def Let_def
  by simp

lemma day_remainder: "0 \<le> s \<Longrightarrow> s < n \<Longrightarrow> (d * n + s) mod n = (s::int)"
  by simp

text \<open>
  What the invalidated entry answers: the clock's second of the day is compared with the
  TTL, so the entry counts as valid during the first \<open>cache_ttl\<close> seconds of every day.
\<close>

lemma is_cache_valid_after_invalidate:
  assumes "datetime_wf now"
  shows "is_cache_valid now (invalidate_cache info) \<longleftrightarrow> second_of_day now < cache_ttl info"
proof -
  let ?us = "microsecond now" and ?s = "second_of_day now" and ?d = "ordinal now - 1"
  have us: "0 \<le> ?us" "?us < 1000000" and s: "0 \<le> ?s" "?s < 86400"
    using assms by (simp_all add: datetime_wf_def)
  have "((?d * 86400 + ?s) * 1000000 + ?us) div 1000000 = ?d * 86400 + ?s"
    using us by (simp add: div_pos_pos_trivial)
  moreover have "(?d * 86400 + ?s) mod 86400 = ?s"
    using s by (rule day_remainder)
  ultimately have "seconds (datetime_sub now datetime_min) = ?s"
    by (simp only: datetime_sub_def datetime_min_def timedelta_new_def Let_def
        timedelta.simps datetime.simps diff_zero)
  then show ?thesis
    by (simp add: is_cache_valid_def invalidate_cache_def)
qed

text \<open>
  C1. After \<open>invalidate_cache()\<close> the entry should never again be valid. An entry
  written at 2024-01-01T12:00:00 with the default TTL of 300 s and then invalidated is
  reported valid at 2024-01-02T00:01:00: \<open>datetime.now() - datetime.min\<close> is 738886 days
  and 60 seconds, and \<open>.seconds\<close> is 60.
\<close>

theorem invalidated_entry_valid_after_midnight:
  "is_cache_valid one_past_midnight_2024_01_02
     (invalidate_cache (fresh_entry noon_2024_01_01 300)) = True"
  by (simp add: is_cache_valid_def invalidate_cache_def fresh_entry_def datetime_sub_def
      timedelta_new_def datetime_min_def one_past_midnight_2024_01_02_def Let_def)

text \<open>
  C2. Validity should be \<open>now - written_at < ttl\<close>. An entry written at
  2024-01-01T12:00:00 with a TTL of 300 s is valid 299 s later and invalid 301 s later, as
  claimed, but it is valid again one day and 10 s later (86410 s elapsed): the difference
  is 1 day and 10 seconds, and \<open>.seconds\<close> is 10.
\<close>

theorem entry_valid_again_after_one_day:
  "is_cache_valid (datetime_add_seconds noon_2024_01_01 299) (fresh_entry noon_2024_01_01 300) = True
   \<and> is_cache_valid (datetime_add_seconds noon_2024_01_01 301) (fresh_entry noon_2024_01_01 300) = False
   \<and> total_microseconds (datetime_sub (datetime_add_seconds noon_2024_01_01 86410) noon_2024_01_01)
       = 86410 * 1000000
   \<and> is_cache_valid (datetime_add_seconds noon_2024_01_01 86410) (fresh_entry noon_2024_01_01 300) = True"
  by (simp add: is_cache_valid_def fresh_entry_def datetime_sub_def datetime_add_seconds_def
      timedelta_new_def total_microseconds_def noon_2024_01_01_def Let_def)


section \<open>Circuit breaker: results\<close>

text \<open>
  In every reachable state the failure count is not negative, and the threshold and the
  cooldown are the constants of \<open>__init__\<close>.
\<close>

lemma breaker_reachable_inv:
  "breaker_reachable cb \<Longrightarrow>
     0 \<le> circuit_breaker_failures cb \<and> circuit_breaker_threshold cb = 5
     \<and> circuit_breaker_timeout cb = 60"
  by (induction rule: breaker_reachable.induct)
     (auto simp: circuit_breaker_init_def record_failure_def record_success_def
        is_circuit_breaker_open_def Let_def)

lemma five_failures_count:
  "circuit_breaker_failures
     (record_failure t5 (record_failure t4 (record_failure t3 (record_failure t2
        (record_failure t1 cb)))))
   = circuit_breaker_failures cb + 5"
  by (simp add: record_failure_def)

lemma five_failures_rest:
  "circuit_breaker_last_failure
     (record_failure t5 (record_failure t4 (record_failure t3 (record_failure t2
        (record_failure t1 cb))))) = t5
   \<and> circuit_breaker_threshold
     (record_failure t5 (record_failure t4 (record_failure t3 (record_failure t2
        (record_failure t1 cb))))) = circuit_breaker_threshold cb
   \<and> circuit_breaker_timeout
     (record_failure t5 (record_failure t4 (record_failure t3 (record_failure t2
        (record_failure t1 cb))))) = circuit_breaker_timeout cb"
  by (simp add: record_failure_def)

text \<open>
  C4. In every state, \<open>_is_circuit_breaker_open\<close> answers true exactly when the failure count has reached
  the threshold and less than the cooldown has passed since the last failure; over the
  threshold with the cooldown elapsed it resets the count to 0 and answers false; a true
  answer leaves the state as it was, so every further call before the cooldown elapses is
  true again. A client (threshold 5, cooldown 60 s, in any state it can reach) that then
  records five failures, the last
  at \<open>t5\<close>, is open at every \<open>now\<close> with \<open>now - t5 < 60\<close>, and the first call with
  \<open>now - t5 \<ge> 60\<close> answers false and leaves a failure count of 0.
\<close>

theorem is_circuit_breaker_open_spec:
  fixes cb :: circuit_breaker and now t1 t2 t3 t4 t5 :: real
  defines "tripped \<equiv> record_failure t5 (record_failure t4 (record_failure t3
             (record_failure t2 (record_failure t1 cb))))"
  shows "(fst (is_circuit_breaker_open now cb) \<longleftrightarrow>
            circuit_breaker_failures cb \<ge> circuit_breaker_threshold cb
            \<and> now - circuit_breaker_last_failure cb < of_int (circuit_breaker_timeout cb))
       \<and> (circuit_breaker_failures cb \<ge> circuit_breaker_threshold cb
            \<and> \<not> now - circuit_breaker_last_failure cb < of_int (circuit_breaker_timeout cb)
          \<longrightarrow> is_circuit_breaker_open now cb = (False, cb\<lparr>circuit_breaker_failures := 0\<rparr>))
       \<and> (fst (is_circuit_breaker_open now cb) \<longrightarrow> snd (is_circuit_breaker_open now cb) = cb)
       \<and> (breaker_reachable cb \<longrightarrow>
            (now - t5 < 60 \<longrightarrow> is_circuit_breaker_open now tripped = (True, tripped))
            \<and> (\<not> now - t5 < 60 \<longrightarrow>
                 is_circuit_breaker_open now tripped
                   = (False, tripped\<lparr>circuit_breaker_failures := 0\<rparr>)))"
proof -
  have general: "fst (is_circuit_breaker_open now cb) \<longleftrightarrow>
            circuit_breaker_failures cb \<ge> circuit_breaker_threshold cb
            \<and> now - circuit_breaker_last_failure cb < of_int (circuit_breaker_timeout cb)"
    by (simp add: is_circuit_breaker_open_def Let_def)
  have reset: "circuit_breaker_failures cb \<ge> circuit_breaker_threshold cb
            \<and> \<not> now - circuit_breaker_last_failure cb < of_int (circuit_breaker_timeout cb)
          \<longrightarrow> is_circuit_breaker_open now cb = (False, cb\<lparr>circuit_breaker_failures := 0\<rparr>)"
    by (simp add: is_circuit_breaker_open_def Let_def)
  have same: "fst (is_circuit_breaker_open now cb) \<longrightarrow> snd (is_circuit_breaker_open now cb) = cb"
    by (simp add: is_circuit_breaker_open_def Let_def)
  have scenario: "breaker_reachable cb \<longrightarrow>
            (now - t5 < 60 \<longrightarrow> is_circuit_breaker_open now tripped = (True, tripped))
            \<and> (\<not> now - t5 < 60 \<longrightarrow>
                 is_circuit_breaker_open now tripped
                   = (False, tripped\<lparr>circuit_breaker_failures := 0\<rparr>))"
  proof
    assume reach: "breaker_reachable cb"
    have inv: "0 \<le> circuit_breaker_failures cb" "circuit_breaker_threshold cb = 5"
      "circuit_breaker_timeout cb = 60"
      using breaker_reachable_inv [OF reach] by simp_all
    have cnt: "circuit_breaker_failures tripped \<ge> circuit_breaker_threshold tripped"
      using inv unfolding tripped_def by (simp add: five_failures_count five_failures_rest)
    have last: "circuit_breaker_last_failure tripped = t5"
      and tmo: "circuit_breaker_timeout tripped = 60"
      using inv unfolding tripped_def by (simp_all add: five_failures_rest)
    show "(now - t5 < 60 \<longrightarrow> is_circuit_breaker_open now tripped = (True, tripped))
            \<and> (\<not> now - t5 < 60 \<longrightarrow>
                 is_circuit_breaker_open now tripped
                   = (False, tripped\<lparr>circuit_breaker_failures := 0\<rparr>))"
      using cnt last tmo by (simp add: is_circuit_breaker_open_def Let_def)
  qed
  from general reset same scenario show ?thesis by blast
qed

theorem is_circuit_breaker_open_spec_witness:
  "breaker_reachable circuit_breaker_init
   \<and> is_circuit_breaker_open 130
        (record_failure 104 (record_failure 103 (record_failure 102 (record_failure 101
          (record_failure 100 circuit_breaker_init)))))
      = (True, \<lparr>circuit_breaker_failures = 5, circuit_breaker_last_failure = 104,
                circuit_breaker_threshold = 5, circuit_breaker_timeout = 60\<rparr>)
   \<and> is_circuit_breaker_open 164
        (record_failure 104 (record_failure 103 (record_failure 102 (record_failure 101
          (record_failure 100 circuit_breaker_init)))))
      = (False, \<lparr>circuit_breaker_failures = 0, circuit_breaker_last_failure = 104,
                circuit_breaker_threshold = 5, circuit_breaker_timeout = 60\<rparr>)"
proof -
  have r: "breaker_reachable circuit_breaker_init"
    by (rule reach_init)
  have early: "(130::real) - 104 < 60" and late: "\<not> (164::real) - 104 < 60"
    by simp_all
  from r early late
    is_circuit_breaker_open_spec [where cb = circuit_breaker_init and now = 130
      and ?t1.0 = 100 and ?t2.0 = 101 and ?t3.0 = 102 and ?t4.0 = 103 and ?t5.0 = 104]
    is_circuit_breaker_open_spec [where cb = circuit_breaker_init and now = 164
      and ?t1.0 = 100 and ?t2.0 = 101 and ?t3.0 = 102 and ?t4.0 = 103 and ?t5.0 = 104]
  show ?thesis
    by (simp add: record_failure_def circuit_breaker_init_def)
qed

text \<open>
  C9. \<open>_record_success\<close> sets the failure count to \<open>max(0, failure_count - 1)\<close>, a
  decrement by one that stops at zero (from a count of two or more the result is not
  zero), and leaves the time of the last failure unchanged.
\<close>

theorem record_success_decays:
  assumes "breaker_reachable cb"
  shows "circuit_breaker_failures (record_success cb) = max 0 (circuit_breaker_failures cb - 1)
       \<and> circuit_breaker_last_failure (record_success cb) = circuit_breaker_last_failure cb
       \<and> record_success cb = cb\<lparr>circuit_breaker_failures := max 0 (circuit_breaker_failures cb - 1)\<rparr>
       \<and> (2 \<le> circuit_breaker_failures cb \<longrightarrow> circuit_breaker_failures (record_success cb) \<noteq> 0)"
proof -
  have "0 \<le> circuit_breaker_failures cb"
    using breaker_reachable_inv [OF assms] by simp
  then show ?thesis
    by (cases "circuit_breaker_failures cb = 0") (simp_all add: record_success_def)
qed

theorem record_success_decays_witness:
  "breaker_reachable (record_failure 3 (record_failure 2 (record_failure 1 circuit_breaker_init)))
   \<and> circuit_breaker_failures (record_success
        (record_failure 3 (record_failure 2 (record_failure 1 circuit_breaker_init)))) = 2
   \<and> circuit_breaker_last_failure (record_success
        (record_failure 3 (record_failure 2 (record_failure 1 circuit_breaker_init)))) = 3"
proof -
  have r: "breaker_reachable
      (record_failure 3 (record_failure 2 (record_failure 1 circuit_breaker_init)))"
    by (intro reach_failure reach_init)
  from r record_success_decays [OF r] show ?thesis
    by (simp add: record_failure_def circuit_breaker_init_def)
qed


section \<open>Health monitor: results\<close>

text \<open>A health check keeps the error count of the checked identity non-negative.\<close>

lemma check_connection_health_nonneg:
  assumes "check_connection_health m cid outcome t0 t1 t2 = Inr m'"
    and "\<forall>h. connection_health m cid = Some h \<longrightarrow> 0 \<le> error_count h"
    and "connection_health m' cid = Some h'"
  shows "0 \<le> error_count h'"
  using assms
  by (auto simp: check_connection_health_def Let_def split: option.splits probe_outcome.splits)

text \<open>
  C3, as stated, fails: with \<open>max_errors = 5\<close> a failure that brings the error count from
  1 to 2 leaves the state DEGRADED, although 2 is below the exact half 2.5. The cutoff in
  the code is \<open>self.max_errors // 2\<close>, which is 2.
\<close>

theorem check_connection_health_exact_half_counterexample:
  "check_connection_health monitor_one_error ''primary'' (ProbeFailed ''boom'') 20 21 22
     = Inr (monitor_one_error\<lparr>connection_health := [''primary'' \<mapsto>
              \<lparr>state = DEGRADED, last_check = 22, response_time_ms = 1000, error_count = 2,
               last_error = Some ''boom'', recovery_attempts = 0\<rparr>]\<rparr>)
   \<and> max_errors monitor_one_error = 5 \<and> (2::real) < 5 / 2 \<and> DEGRADED \<noteq> HEALTHY"
  by (simp add: check_connection_health_def monitor_one_error_def Let_def)

text \<open>
  C3, amended. For a monitored identity (one that has a health record, with its error
  count not negative, as \<open>check_connection_health_nonneg\<close> maintains), a probe failure
  adds one to the error count, stores the failure message in \<open>last_error\<close>, and sets the
  state to UNHEALTHY if the new count is at least \<open>max_errors\<close>, to DEGRADED if it is at
  least \<open>max_errors // 2\<close> (floor division) and below \<open>max_errors\<close>, and to HEALTHY if it
  is below \<open>max_errors // 2\<close>.
\<close>

theorem check_connection_health_failure:
  assumes rec: "connection_health m cid = Some h"
    and nonneg: "0 \<le> error_count h"
  shows "\<exists>h'. check_connection_health m cid (ProbeFailed msg) t0 t1 t2
                 = Inr (m\<lparr>connection_health := (connection_health m)(cid \<mapsto> h')\<rparr>)
            \<and> error_count h' = error_count h + 1
            \<and> last_error h' = Some msg
            \<and> (error_count h' \<ge> max_errors m \<longrightarrow> state h' = UNHEALTHY)
            \<and> (max_errors m div 2 \<le> error_count h' \<and> error_count h' < max_errors m
                 \<longrightarrow> state h' = DEGRADED)
            \<and> (error_count h' < max_errors m div 2 \<longrightarrow> state h' = HEALTHY)"
proof -
  let ?c = "error_count h + 1"
  let ?h' = "h\<lparr>error_count := ?c, last_check := t2, response_time_ms := (t1 - t0) * 1000,
               last_error := Some msg,
               state := (if ?c \<ge> max_errors m then UNHEALTHY
                         else if ?c \<ge> max_errors m div 2 then DEGRADED else HEALTHY)\<rparr>"
  have run: "check_connection_health m cid (ProbeFailed msg) t0 t1 t2
      = Inr (m\<lparr>connection_health := (connection_health m)(cid \<mapsto> ?h')\<rparr>)"
    using rec by (simp add: check_connection_health_def Let_def)
  have below: "?c < max_errors m div 2 \<Longrightarrow> ?c < max_errors m"
    using nonneg by linarith
  have fields: "error_count ?h' = ?c" "last_error ?h' = Some msg"
    by simp_all
  have unhealthy: "error_count ?h' \<ge> max_errors m \<longrightarrow> state ?h' = UNHEALTHY"
    by simp
  have degraded: "max_errors m div 2 \<le> error_count ?h' \<and> error_count ?h' < max_errors m
       \<longrightarrow> state ?h' = DEGRADED"
    by simp
  have healthy: "error_count ?h' < max_errors m div 2 \<longrightarrow> state ?h' = HEALTHY"
    using below by auto
  from run fields unhealthy degraded healthy show ?thesis by blast
qed

theorem check_connection_health_failure_witness:
  "connection_health monitor_one_error ''primary'' =
      Some \<lparr>state = HEALTHY, last_check = 10, response_time_ms = 5, error_count = 1,
            last_error = Some ''timeout'', recovery_attempts = 0\<rparr>
   \<and> (\<exists>h'. check_connection_health monitor_one_error ''primary'' (ProbeFailed ''boom'') 20 21 22
              = Inr (monitor_one_error\<lparr>connection_health :=
                       (connection_health monitor_one_error)(''primary'' \<mapsto> h')\<rparr>)
          \<and> error_count h' = 2 \<and> last_error h' = Some ''boom'' \<and> state h' = DEGRADED)"
proof -
  have rec: "connection_health monitor_one_error ''primary'' =
      Some \<lparr>state = HEALTHY, last_check = 10, response_time_ms = 5, error_count = 1,
            last_error = Some ''timeout'', recovery_attempts = 0\<rparr>"
    by (simp add: monitor_one_error_def)
  have half: "max_errors monitor_one_error div 2 = 2" "max_errors monitor_one_error = 5"
    by (simp_all add: monitor_one_error_def)
  from check_connection_health_failure [OF rec, of "''boom''" 20 21 22] half rec
  show ?thesis by auto
qed

text \<open>
  C10. For an identity without a health record, \<open>is_connection_healthy\<close> returns false
  and \<open>get_connection_health\<close> returns \<open>None\<close>; neither has a raising branch (the lookup
  is \<open>dict.get\<close>). This is the case in a new monitor, where \<open>start_monitoring\<close> was never
  called, and for the identity just given to \<open>stop_monitoring\<close>, which deletes the record.
\<close>

theorem unmonitored_identity_not_healthy:
  "(connection_health m cid = None \<longrightarrow>
        is_connection_healthy m cid = False \<and> get_connection_health m cid = None)
   \<and> is_connection_healthy (monitor_init interval maxerr) cid = False
   \<and> get_connection_health (monitor_init interval maxerr) cid = None
   \<and> is_connection_healthy (stop_monitoring m cid) cid = False
   \<and> get_connection_health (stop_monitoring m cid) cid = None"
  by (auto simp: is_connection_healthy_def get_connection_health_def monitor_init_def
      stop_monitoring_def Let_def domIff)

theorem unmonitored_identity_not_healthy_witness:
  "connection_health (start_monitoring (monitor_init 60 5) ''primary'') ''replica'' = None
   \<and> is_connection_healthy (start_monitoring (monitor_init 60 5) ''primary'') ''replica'' = False
   \<and> get_connection_health (start_monitoring (monitor_init 60 5) ''primary'') ''primary''
       = Some \<lparr>state = UNKNOWN, last_check = 0, response_time_ms = 0, error_count = 0,
               last_error = None, recovery_attempts = 0\<rparr>
   \<and> is_connection_healthy
        (stop_monitoring (start_monitoring (monitor_init 60 5) ''primary'') ''primary'') ''primary''
       = False"
proof -
  have absent: "connection_health (start_monitoring (monitor_init 60 5) ''primary'') ''replica'' = None"
    by (simp add: start_monitoring_def monitor_init_def)
  have present: "get_connection_health (start_monitoring (monitor_init 60 5) ''primary'') ''primary''
       = Some \<lparr>state = UNKNOWN, last_check = 0, response_time_ms = 0, error_count = 0,
               last_error = None, recovery_attempts = 0\<rparr>"
    by (simp add: start_monitoring_def monitor_init_def get_connection_health_def)
  from absent present
    unmonitored_identity_not_healthy [of "start_monitoring (monitor_init 60 5) ''primary''" "''replica''"]
    unmonitored_identity_not_healthy [of "start_monitoring (monitor_init 60 5) ''primary''" "''primary''"]
  show ?thesis by simp
qed


section \<open>Recovery manager: results\<close>











section \<open>Connection factory: results\<close>

text \<open>
  Three failed runs under the settings of \<open>create_connection\<close>: two waits of 2 s (the
  minimum dominates \<open>1 * 2^0\<close> and \<open>1 * 2^1\<close>), then \<open>RetryError\<close> around the third error.
\<close>

lemma retry_call_three_failures:
  assumes "run 1 = Inl e1" "run 2 = Inl e2" "run 3 = Inl e3"
    and "is_Exception e1" "is_Exception e2" "is_Exception e3"
  shows "retry_call create_connection_retry run 1 = (Inl (RetryError e3), [2, 2])"
proof -
  have third: "retry_call create_connection_retry run 3 = (Inl (RetryError e3), [])"
    using assms by (subst retry_call.simps) (simp add: create_connection_retry_def)
  have second: "retry_call create_connection_retry run 2 = (Inl (RetryError e3), [2])"
    using assms third
    by (subst retry_call.simps) (simp add: create_connection_retry_def wait_exponential_def)
  show ?thesis
    using assms second [unfolded numeral_2_eq_2]
    by (subst retry_call.simps) (simp add: create_connection_retry_def wait_exponential_def)
qed

lemma create_connection_all_attempts_fail:
  assumes "\<And>k. k \<in> {1, 2, 3} \<Longrightarrow> \<exists>e. connect (driver k) = Inl e \<and> is_Exception e"
  shows "\<exists>e. connect (driver 3) = Inl e
           \<and> create_connection driver = (Inl (RetryError e), [2, 2])"
proof -
  obtain e1 e2 e3 where
    "connect (driver 1) = Inl e1" "connect (driver 2) = Inl e2" "connect (driver 3) = Inl e3"
    "is_Exception e1" "is_Exception e2" "is_Exception e3"
    using assms [of 1] assms [of 2] assms [of 3] by auto
  then show ?thesis
    unfolding create_connection_def
    using retry_call_three_failures [of "\<lambda>k. connect (driver k)" e1 e2 e3] by simp
qed

text \<open>
  C7. When every attempt fails, \<open>create_connection\<close> should fail with the connection
  error (the docstring: "Raises: ConnectionError: If connection cannot be established
  after retries") and with no other error type. With a driver that raises \<open>pyodbc.Error\<close>
  in each of the three attempts, the caller gets \<open>tenacity.RetryError\<close>, which wraps the
  last \<open>ConnectionError\<close>, after waits of 2 s and 2 s.
\<close>

theorem create_connection_exhausted_raises_RetryError:
  "create_connection driver_always_refuses
     = (Inl (RetryError (ConnectionError ''Failed to connect to database: login timeout expired'')),
        [2, 2])"
proof -
  let ?e = "ConnectionError ''Failed to connect to database: login timeout expired''"
  have fails: "connect (driver_always_refuses k) = Inl ?e" for k
    by (simp add: connect_def driver_always_refuses_def)
  have exc: "is_Exception ?e"
    by simp
  show ?thesis
    unfolding create_connection_def
    by (rule retry_call_three_failures [where ?e1.0 = ?e and ?e2.0 = ?e and ?e3.0 = ?e])
       (rule fails exc)+
qed

text \<open>The definitions and case splits that the case analyses below unfold.\<close>

lemmas pool_defs = scoped_use_def gen_start_def aexit_def aclose_then_def gen_resume_def
  except_handler_def finally_pooled_def return_to_pool_def close_conn_def pool_wf_def in_pool_def
  pooling_enabled_def yields_twice_def Let_def

lemmas pool_splits = option.splits list.splits sum.splits gen_step.splits yield_point.splits
  resume.splits body_outcome.splits if_splits prod.splits

text \<open>\<open>initialize_pool\<close> establishes the bound on the queue, however it ends.\<close>

lemma length_fill_pool: "length (snd (fill_pool rs q)) \<le> length q + length rs"
  by (induction rs q rule: fill_pool.induct) auto

lemma initialize_pool_wf: "pool_wf f \<Longrightarrow> pool_wf (snd (initialize_pool f created_at))"
proof -
  assume wf: "pool_wf f"
  have "length (snd (fill_pool (map created_at [0..<nat (pool_size f)]) [])) \<le> nat (pool_size f)"
    using length_fill_pool [of "map created_at [0..<nat (pool_size f)]" "[]"] by simp
  then show ?thesis
    using wf by (auto simp: initialize_pool_def pool_wf_def split: prod.splits option.splits)
qed

text \<open>
  C5, as stated, fails. With pooling disabled, the connection that \<open>create_connection\<close>
  returns is yielded at once; here it is one on which the probe would fail. With pooling
  enabled and the pooled connection failing the probe, the replacement is yielded in the
  same way. No probe is run on either.
\<close>

theorem get_pooled_connection_unvalidated_counterexample:
  "gen_start unpooled_factory none_alive (Inr 7)
     = (Yield UnpooledYield 7, unpooled_factory\<lparr>acquired := [7]\<rparr>)
   \<and> none_alive 7 = False
   \<and> gen_start pooled_factory none_alive (Inr 7)
     = (Yield ReplacementYield 7,
        pooled_factory\<lparr>connection_pool := Some [4], closed := {3}, acquired := [3, 7]\<rparr>)"
  by (simp add: gen_start_def except_handler_def close_conn_def pooling_enabled_def
      unpooled_factory_def pooled_factory_def none_alive_def Let_def)

text \<open>
  C5, amended. A call of \<open>get_pooled_connection\<close> yields a connection taken from the pool
  exactly when pooling is enabled and the connection at the head of the queue passes the
  probe \<open>SELECT 1\<close>; the connection has then left the queue and nothing was closed. It
  yields the connection returned by \<open>create_connection\<close>, without a probe, exactly when
  pooling is disabled, or pooling is enabled and the pooled connection failed the probe; in
  the latter case the pooled connection has left the queue and is closed. It raises
  exactly when \<open>create_connection\<close> fails (with pooling enabled: after a failed probe),
  the error is the one \<open>create_connection\<close> raised, and with pooling enabled the failed
  connection is then closed and back in the queue. It never ends without yielding or
  raising. With pooling enabled and an empty pool it waits (the source gives \<open>get()\<close> no
  timeout) and changes nothing, and it waits in no other case (but for a queue over its
  capacity, which \<open>pool_wf\<close> excludes).
\<close>

theorem get_pooled_connection_yield:
  assumes "gen_start f alive created = (r, f1)"
  shows "(\<forall>c. r = Yield ValidatedYield c \<longleftrightarrow>
            pooling_enabled f \<and> (\<exists>q. connection_pool f = Some (c # q)) \<and> alive c)
       \<and> (\<forall>c q. r = Yield ValidatedYield c \<and> connection_pool f = Some (c # q) \<longrightarrow>
            f1 = f\<lparr>connection_pool := Some q, acquired := acquired f @ [c]\<rparr>)
       \<and> (\<forall>c. r = Yield ReplacementYield c \<longleftrightarrow>
            pooling_enabled f \<and> created = Inr c
            \<and> (\<exists>c0 q. connection_pool f = Some (c0 # q) \<and> \<not> alive c0))
       \<and> (\<forall>c c0 q. r = Yield ReplacementYield c \<and> connection_pool f = Some (c0 # q) \<longrightarrow>
            f1 = f\<lparr>connection_pool := Some q, closed := insert c0 (closed f),
                   acquired := acquired f @ [c0, c]\<rparr>
            \<and> c0 \<in> closed f1)
       \<and> (\<forall>c. r = Yield UnpooledYield c \<longleftrightarrow> \<not> pooling_enabled f \<and> created = Inr c)
       \<and> (\<forall>c. r = Yield UnpooledYield c \<longrightarrow> f1 = f\<lparr>acquired := acquired f @ [c]\<rparr>)
       \<and> (\<forall>e. r = Raise e \<longleftrightarrow>
            created = Inl e
            \<and> (pooling_enabled f \<longrightarrow>
                 (\<exists>c0 q. connection_pool f = Some (c0 # q) \<and> \<not> alive c0
                    \<and> (pool_size f \<le> 0 \<or> int (length q) < pool_size f))))
       \<and> (\<forall>e. r = Raise e \<and> \<not> pooling_enabled f \<longrightarrow> f1 = f)
       \<and> (\<forall>e c0 q. r = Raise e \<and> pooling_enabled f \<and> connection_pool f = Some (c0 # q) \<longrightarrow>
            f1 = f\<lparr>connection_pool := Some (q @ [c0]), closed := insert c0 (closed f),
                   acquired := acquired f @ [c0]\<rparr>)
       \<and> r \<noteq> Stop
       \<and> (r = Blocked \<longrightarrow> pooling_enabled f \<and> (connection_pool f = Some [] \<or> \<not> pool_wf f))
       \<and> (pooling_enabled f \<and> connection_pool f = Some [] \<longrightarrow> r = Blocked \<and> f1 = f)"
  using assms unfolding pool_defs
  by (auto split: pool_splits)


theorem get_pooled_connection_yield_witness:
  "gen_start pooled_factory all_alive (Inr 7)
     = (Yield ValidatedYield 3, pooled_factory\<lparr>connection_pool := Some [4], acquired := [3]\<rparr>)
   \<and> pooling_enabled pooled_factory
   \<and> connection_pool pooled_factory = Some [3, 4]
   \<and> all_alive 3
   \<and> gen_start pooled_factory none_alive (Inr 7)
     = (Yield ReplacementYield 7,
        pooled_factory\<lparr>connection_pool := Some [4], closed := {3}, acquired := [3, 7]\<rparr>)
   \<and> 3 \<in> closed (pooled_factory\<lparr>connection_pool := Some [4], closed := {3},
                       acquired := [3, 7]\<rparr>)"
proof -
  have run: "gen_start pooled_factory all_alive (Inr 7)
     = (Yield ValidatedYield 3, pooled_factory\<lparr>connection_pool := Some [4], acquired := [3]\<rparr>)"
    by (simp add: gen_start_def pooling_enabled_def pooled_factory_def all_alive_def Let_def)
  have run2: "gen_start pooled_factory none_alive (Inr 7)
     = (Yield ReplacementYield 7,
        pooled_factory\<lparr>connection_pool := Some [4], closed := {3}, acquired := [3, 7]\<rparr>)"
    by (simp add: gen_start_def except_handler_def close_conn_def pooling_enabled_def
        pooled_factory_def none_alive_def Let_def)
  have pool: "connection_pool pooled_factory = Some (3 # [4])"
    by (simp add: pooled_factory_def)
  from get_pooled_connection_yield [OF run]
  have first: "pooling_enabled pooled_factory \<and> all_alive 3"
    by blast
  from get_pooled_connection_yield [OF run2] pool
  have second: "3 \<in> closed (pooled_factory\<lparr>connection_pool := Some [4], closed := {3},
                       acquired := [3, 7]\<rparr>)"
    by blast
  from run run2 first second show ?thesis
    by (simp add: pooled_factory_def)
qed

text \<open>
  A scoped use fails to return only when it waits at the start for an empty pool, and it
  keeps the bound on the queue.
\<close>

lemma scoped_use_blocks_only_on_empty_pool:
  assumes "pool_wf f" and "scoped_use closes_generator f alive created body = (out, f')"
  shows "out = NeverReturns \<longleftrightarrow> pooling_enabled f \<and> connection_pool f = Some []"
  using assms unfolding pool_defs
  by (auto split: pool_splits)

lemma scoped_use_pool_wf:
  assumes "pool_wf f" and "scoped_use closes_generator f alive created body = (out, f')"
  shows "pool_wf f'"
  using assms unfolding pool_defs
  by (auto split: pool_splits)

text \<open>
  If the interpreter closes a generator that yields again, or the generator does not yield
  twice, every connection the call took from the pool or created is in the pool or closed
  at exit. The connection yielded to the caller is so in every case.
\<close>

lemma scoped_use_acquired_accounted:
  assumes "pool_wf f" and "scoped_use closes_generator f alive created body = (out, f')"
    and "closes_generator \<or> \<not> yields_twice f alive created body"
  shows "\<forall>c \<in> set (drop (length (acquired f)) (acquired f')). in_pool c f' \<or> c \<in> closed f'"
  using assms unfolding pool_defs
  by (auto split: pool_splits)

lemma scoped_use_yielded_accounted:
  assumes "pool_wf f" and "scoped_use closes_generator f alive created body = (out, f')"
  shows "\<forall>p c f1. gen_start f alive created = (Yield p c, f1) \<longrightarrow>
           out \<noteq> NeverReturns \<and> (in_pool c f' \<or> c \<in> closed f')"
  using assms unfolding pool_defs
  by (auto split: pool_splits)

text \<open>
  The path with the second yield: the caller gets \<open>RuntimeError\<close> in place of its own
  exception, the connection that had passed the probe is closed, and the replacement is
  in the pool only if the interpreter closes the generator.
\<close>

lemma scoped_use_second_yield:
  assumes "pool_wf f" and "yields_twice f alive created body"
    and "scoped_use closes_generator f alive created body = (out, f')"
  shows "\<exists>c q c'. connection_pool f = Some (c # q) \<and> created = Inr c'
           \<and> out = Propagates (RuntimeError ''generator didn't stop after athrow()'')
           \<and> f' = f\<lparr>connection_pool := Some (if closes_generator then q @ [c'] else q),
                      closed := insert c (closed f),
                      acquired := acquired f @ [c, c']\<rparr>"
  using assms unfolding pool_defs
  by (auto split: pool_splits)


end
